theory Spec2Isabelle
  imports Main
begin

section \<open>Values thrown, the environment, remote requests\<close>

text \<open>
  The service module (\<^verbatim>\<open>services/geminiService\<close>) talks to the provider through an SDK.
  The SDK, \<^verbatim>\<open>fetch\<close> and \<^verbatim>\<open>FileReader\<close> are external: their answers are parameters of the
  model. What the module itself does (guards, cache updates, the polling loop, the order
  of remote calls, what it throws and yields) is modelled as written.

  A thrown value is \<open>Error msg\<close> when the module builds it with \<^verbatim>\<open>new Error(msg)\<close>,
  \<open>TypeError prop\<close> when the runtime raises on reading property \<open>prop\<close> of
  \<^verbatim>\<open>undefined\<close>, and \<open>Foreign msg\<close> when the SDK, \<^verbatim>\<open>fetch\<close> or the file reader threw it.
\<close>

datatype exn = Error string | TypeError string | Foreign string

text \<open>\<^verbatim>\<open>process.env\<close>: only \<^verbatim>\<open>API_KEY\<close> is read.\<close>

record env =
  API_KEY :: "string option"

text \<open>\<^verbatim>\<open>!process.env.API_KEY\<close>: \<^verbatim>\<open>undefined\<close> and the empty string are falsy.\<close>

definition truthy :: "string option \<Rightarrow> bool" where
  "truthy v = (case v of None \<Rightarrow> False | Some s \<Rightarrow> s \<noteq> [])"

text \<open>A template literal renders \<^verbatim>\<open>undefined\<close> as the text \<^verbatim>\<open>undefined\<close>.\<close>

definition render :: "string option \<Rightarrow> string" where
  "render v = (case v of None \<Rightarrow> ''undefined'' | Some s \<Rightarrow> s)"

text \<open>The remote calls a function issues, in order.\<close>

datatype request =
    SendMessage nat string
  | GenerateContent string
  | GenerateVideos
  | GetVideosOperation
  | Fetch string

section \<open>Chat session cache\<close>

datatype ChatPersonality = standard | fast | creative

record chat_config =
  systemInstruction :: string
  thinkingBudget :: "nat option"

text \<open>
  A \<^verbatim>\<open>Chat\<close> object: \<open>chat_ref\<close> is its identity (two objects are the same instance iff
  their references are equal); the rest is what \<^verbatim>\<open>ai.chats.create\<close> was given.
\<close>

record Chat =
  chat_ref :: nat
  chat_apiKey :: "string option"
  chat_model :: string
  chat_cfg :: chat_config

text \<open>
  The module-level \<^verbatim>\<open>chats\<close> map, the allocator of object references, and the console.
\<close>

record chat_state =
  chats :: "ChatPersonality \<Rightarrow> Chat option"
  next_ref :: nat
  chat_console :: "string list"

definition init_chat_state :: chat_state where
  "init_chat_state = \<lparr>chats = (\<lambda>_. None), next_ref = 0, chat_console = []\<rparr>"

definition clearChatHistory :: "ChatPersonality \<Rightarrow> chat_state \<Rightarrow> chat_state" where
  "clearChatHistory personality st = st\<lparr>chats := (chats st)(personality := None)\<rparr>"

definition base_config :: chat_config where
  "base_config = \<lparr>systemInstruction =
     ''You are Mani Ai, a helpful and friendly AI assistant. Your responses should be informative and easy to understand.'',
     thinkingBudget = None\<rparr>"

fun chat_model_of :: "ChatPersonality \<Rightarrow> string \<times> chat_config" where
  "chat_model_of fast = (''gemini-flash-lite-latest'', base_config)"
| "chat_model_of creative = (''gemini-2.5-pro'', base_config\<lparr>thinkingBudget := Some 32768\<rparr>)"
| "chat_model_of standard = (''gemini-2.5-flash'', base_config)"

definition getChatInstance ::
  "env \<Rightarrow> chat_state \<Rightarrow> ChatPersonality \<Rightarrow> exn + (Chat \<times> chat_state)" where
  "getChatInstance e st personality =
     (case chats st personality of
        Some c \<Rightarrow> Inr (c, st)
      | None \<Rightarrow>
          if \<not> truthy (API_KEY e) then Inl (Error ''API_KEY environment variable not set'')
          else
            let (model, config) = chat_model_of personality;
                newChat = \<lparr>chat_ref = next_ref st, chat_apiKey = API_KEY e,
                           chat_model = model, chat_cfg = config\<rparr>
            in Inr (newChat,
                    st\<lparr>chats := (chats st)(personality \<mapsto> newChat),
                       next_ref := Suc (next_ref st)\<rparr>))"

text \<open>
  \<^verbatim>\<open>chatInstance.sendMessage({ message })\<close> is the provider's: \<open>send c m\<close> is its answer
  (the reply text, or what it throws).
\<close>

type_synonym chat_backend = "Chat \<Rightarrow> string \<Rightarrow> exn + string"

definition comm_failure :: exn where
  "comm_failure = Error ''Failed to communicate with the Mani Ai service.''"

definition exn_text :: "exn \<Rightarrow> string" where
  "exn_text x = (case x of Error m \<Rightarrow> m | TypeError m \<Rightarrow> m | Foreign m \<Rightarrow> m)"

text \<open>
  The result, the state after the call, and the remote requests issued. The \<^verbatim>\<open>catch\<close>
  block logs the caught error, deletes the cache entry and throws a new \<^verbatim>\<open>Error\<close>.
\<close>

definition on_send_error :: "exn \<Rightarrow> ChatPersonality \<Rightarrow> chat_state \<Rightarrow> chat_state" where
  "on_send_error err personality st =
     st\<lparr>chats := (chats st)(personality := None),
        chat_console := chat_console st @ [''Error sending message to Gemini: '' @ exn_text err]\<rparr>"

definition sendMessageToAI ::
  "env \<Rightarrow> chat_backend \<Rightarrow> chat_state \<Rightarrow> string \<Rightarrow> ChatPersonality
     \<Rightarrow> (exn + string) \<times> chat_state \<times> request list" where
  "sendMessageToAI e send st message personality =
     (case getChatInstance e st personality of
        Inl err \<Rightarrow> (Inl comm_failure, on_send_error err personality st, [])
      | Inr (chatInstance, st1) \<Rightarrow>
          (case send chatInstance message of
             Inl err \<Rightarrow>
               (Inl comm_failure, on_send_error err personality st1,
                [SendMessage (chat_ref chatInstance) message])
           | Inr text \<Rightarrow>
               (Inr text, st1, [SendMessage (chat_ref chatInstance) message])))"

text \<open>
  Every cached object was allocated earlier: its reference is below the allocator's next
  one. The initial state satisfies this and every operation keeps it.
\<close>

definition cache_ok :: "chat_state \<Rightarrow> bool" where
  "cache_ok st =
     list_all (\<lambda>p. case chats st p of None \<Rightarrow> True | Some c \<Rightarrow> chat_ref c < next_ref st)
       [standard, fast, creative]"

text \<open>
  What can be done to the cache between two calls: a call of \<open>getChatInstance\<close>, a
  \<open>clearChatHistory\<close>, or a chat turn, each for some personality. \<open>chat_step\<close> is the
  state the operation leaves (a \<open>getChatInstance\<close> that throws leaves it as it was).
\<close>

datatype chat_op =
    Get env ChatPersonality
  | Clear ChatPersonality
  | Turn env chat_backend string ChatPersonality

fun chat_step :: "chat_state \<Rightarrow> chat_op \<Rightarrow> chat_state" where
  "chat_step st (Get e Q) =
     (case getChatInstance e st Q of Inl err \<Rightarrow> st | Inr (c, st1) \<Rightarrow> st1)"
| "chat_step st (Clear Q) = clearChatHistory Q st"
| "chat_step st (Turn e send m Q) = fst (snd (sendMessageToAI e send st m Q))"

text \<open>
  The operations that delete the entry of \<open>P\<close>: \<open>clearChatHistory P\<close>, and a turn for \<open>P\<close>
  that fails in the state it is run in.
\<close>

fun evicts :: "ChatPersonality \<Rightarrow> chat_state \<Rightarrow> chat_op \<Rightarrow> bool" where
  "evicts P st (Get e Q) = False"
| "evicts P st (Clear Q) = (Q = P)"
| "evicts P st (Turn e send m Q) = (Q = P \<and> isl (fst (sendMessageToAI e send st m Q)))"

text \<open>A run of operations none of which, in the state it meets, deletes the entry of \<open>P\<close>.\<close>

fun undisturbed :: "ChatPersonality \<Rightarrow> chat_state \<Rightarrow> chat_op list \<Rightarrow> bool" where
  "undisturbed P st [] = True"
| "undisturbed P st (x # xs) = (\<not> evicts P st x \<and> undisturbed P (chat_step st x) xs)"

section \<open>Media analysis\<close>

text \<open>
  A \<^verbatim>\<open>File\<close>: its MIME type, and what \<^verbatim>\<open>FileReader.readAsDataURL\<close> ends with: a string
  result, a result that is not a string, or an error event.
\<close>

datatype read_result = ReadString string | ReadNonString | ReadFailed string

record File =
  file_type :: string
  file_read :: read_result

record inlineData =
  data :: "string option"
  mimeType :: string

text \<open>\<^verbatim>\<open>s.split(',')\<close>: the pieces between commas, never an empty array.\<close>

fun split_comma :: "string \<Rightarrow> string list" where
  "split_comma [] = [[]]"
| "split_comma (c # cs) =
     (if c = CHR '','' then [] # split_comma cs
      else (case split_comma cs of [] \<Rightarrow> [[c]] | w # ws \<Rightarrow> (c # w) # ws))"

text \<open>\<^verbatim>\<open>xs[i]\<close> of an array: \<^verbatim>\<open>undefined\<close> out of range.\<close>

definition at_index :: "'a list \<Rightarrow> nat \<Rightarrow> 'a option" where
  "at_index xs i = (if i < length xs then Some (xs ! i) else None)"

definition fileToGenerativePart :: "File \<Rightarrow> exn + inlineData" where
  "fileToGenerativePart file =
     (case file_read file of
        ReadFailed err \<Rightarrow> Inl (Foreign err)
      | ReadNonString \<Rightarrow> Inl (Error ''Failed to read file as base64.'')
      | ReadString result \<Rightarrow>
          Inr \<lparr>data = at_index (split_comma result) 1, mimeType = file_type file\<rparr>)"

text \<open>\<^verbatim>\<open>s.startsWith(p)\<close>.\<close>

definition startsWith :: "string \<Rightarrow> string \<Rightarrow> bool" where
  "startsWith s p = (take (length p) s = p)"

text \<open>
  \<^verbatim>\<open>ai.models.generateContent\<close> for analysis: given the key, the model, the prompt and the
  media part, the provider answers with \<^verbatim>\<open>response.text\<close> or throws.
\<close>

type_synonym content_backend =
  "string option \<Rightarrow> string \<Rightarrow> string \<Rightarrow> inlineData \<Rightarrow> exn + string"

definition analyzeMedia ::
  "env \<Rightarrow> content_backend \<Rightarrow> string \<Rightarrow> File \<Rightarrow> (exn + string) \<times> request list" where
  "analyzeMedia e generateContent prompt file =
     (if \<not> truthy (API_KEY e) then (Inl (Error ''API_KEY environment variable not set''), [])
      else
        let model = (if startsWith (file_type file) ''video/'' then ''gemini-2.5-pro''
                     else ''gemini-2.5-flash'')
        in (case fileToGenerativePart file of
              Inl err \<Rightarrow> (Inl err, [])
            | Inr imagePart \<Rightarrow>
                (case generateContent (API_KEY e) model prompt imagePart of
                   Inl err \<Rightarrow> (Inl err, [GenerateContent model])
                 | Inr text \<Rightarrow> (Inr text, [GenerateContent model]))))"

section \<open>Image generation\<close>

datatype aspect_ratio = AR_1_1 | AR_3_4 | AR_4_3 | AR_9_16 | AR_16_9

text \<open>The request \<^verbatim>\<open>ai.models.generateImages\<close> is given.\<close>

record images_request =
  img_model :: string
  img_prompt :: string
  numberOfImages :: nat
  outputMimeType :: string
  img_aspectRatio :: aspect_ratio

text \<open>
  The provider's response: \<^verbatim>\<open>generatedImages\<close>, each entry's \<^verbatim>\<open>image\<close> and its
  \<^verbatim>\<open>imageBytes\<close> are optional in the SDK's types.
\<close>

record Image =
  imageBytes :: "string option"

record GeneratedImage =
  gen_image :: "Image option"

record images_response =
  generatedImages :: "GeneratedImage list option"

type_synonym images_backend = "string option \<Rightarrow> images_request \<Rightarrow> exn + images_response"

definition image_request_of :: "string \<Rightarrow> aspect_ratio \<Rightarrow> images_request" where
  "image_request_of prompt aspectRatio =
     \<lparr>img_model = ''imagen-4.0-generate-001'', img_prompt = prompt, numberOfImages = 1,
      outputMimeType = ''image/jpeg'', img_aspectRatio = aspectRatio\<rparr>"

text \<open>
  \<^verbatim>\<open>response.generatedImages[0].image.imageBytes\<close>, with no optional chaining: reading a
  property of \<^verbatim>\<open>undefined\<close> raises a \<^verbatim>\<open>TypeError\<close> naming the property.
\<close>

definition first_image_bytes :: "images_response \<Rightarrow> exn + string option" where
  "first_image_bytes response =
     (case generatedImages response of
        None \<Rightarrow> Inl (TypeError ''0'')
      | Some imgs \<Rightarrow>
          (case at_index imgs 0 of
             None \<Rightarrow> Inl (TypeError ''image'')
           | Some g \<Rightarrow>
               (case gen_image g of
                  None \<Rightarrow> Inl (TypeError ''imageBytes'')
                | Some i \<Rightarrow> Inr (imageBytes i))))"

definition generateImage ::
  "env \<Rightarrow> images_backend \<Rightarrow> string \<Rightarrow> aspect_ratio \<Rightarrow> (exn + string) \<times> images_request list" where
  "generateImage e generateImages prompt aspectRatio =
     (if \<not> truthy (API_KEY e) then (Inl (Error ''API_KEY environment variable not set''), [])
      else
        let req = image_request_of prompt aspectRatio
        in (case generateImages (API_KEY e) req of
              Inl err \<Rightarrow> (Inl err, [req])
            | Inr response \<Rightarrow>
                (case first_image_bytes response of
                   Inl err \<Rightarrow> (Inl err, [req])
                 | Inr base64ImageBytes \<Rightarrow>
                     (Inr (''data:image/jpeg;base64,'' @ render base64ImageBytes), [req]))))"

section \<open>Video generation\<close>

datatype video_aspect = V_16_9 | V_9_16

record video_config =
  aspectRatio :: video_aspect
  imageFile :: "File option"

record generation_config =
  numberOfVideos :: nat
  resolution :: string
  gen_aspectRatio :: video_aspect

record payload_image =
  pi_imageBytes :: "string option"
  pi_mimeType :: string

record video_payload =
  vp_model :: string
  vp_prompt :: "string option"
  vp_image :: "payload_image option"
  vp_config :: generation_config

text \<open>
  The operation the provider reports: \<^verbatim>\<open>done\<close> (\<^verbatim>\<open>undefined\<close> read as false),
  \<^verbatim>\<open>error\<close> with its \<^verbatim>\<open>message\<close>, and \<^verbatim>\<open>response.generatedVideos[0].video.uri\<close>, every
  level optional.
\<close>

record Video =
  uri :: "string option"

record GeneratedVideo =
  video :: "Video option"

record videos_response =
  generatedVideos :: "GeneratedVideo list option"

record operation_error =
  message :: "string option"

record Operation =
  op_done :: bool
  op_error :: "operation_error option"
  op_response :: "videos_response option"

record http_response =
  ok :: bool
  statusText :: string
  blob :: "exn + string"

text \<open>
  The provider and the browser, as the orchestrator sees them. The job advances on the
  provider's side, so the answer to a status query depends on when it is asked:
  \<open>getVideosOperation b n operation\<close> is the answer to the query issued after \<open>n\<close>
  earlier ones.
\<close>

record video_backend =
  generateVideos :: "string option \<Rightarrow> video_payload \<Rightarrow> exn + Operation"
  getVideosOperation :: "nat \<Rightarrow> Operation \<Rightarrow> exn + Operation"
  fetch :: "string \<Rightarrow> exn + http_response"
  createObjectURL :: "string \<Rightarrow> string"

datatype video_event = Fetching | Completed string

text \<open>
  One run of the generator, consumed to its end as \<^verbatim>\<open>for await\<close> does: the events
  yielded, the remote requests issued, and what it threw (\<open>None\<close>: it finished).
\<close>

record video_run =
  yielded :: "video_event list"
  remote :: "request list"
  thrown :: "exn option"

text \<open>
  \<^verbatim>\<open>while (!operation.done)\<close>: wait, query, and rethrow what a query throws. \<open>n\<close> counts
  the queries issued so far. The loop has no bound: when the provider never reports
  \<^verbatim>\<open>done\<close> it does not return, which is the value \<open>None\<close>. The ten seconds waited before
  each query are time only, and the console line written before rethrowing changes
  nothing the caller sees; neither is part of the model.
\<close>

partial_function (option) poll_loop ::
  "(nat \<Rightarrow> Operation \<Rightarrow> exn + Operation) \<Rightarrow> nat \<Rightarrow> Operation \<Rightarrow> (nat \<times> (exn + Operation)) option"
where
  "poll_loop query n operation =
     (if \<not> op_done operation then
        (case query n operation of
           Inl err \<Rightarrow> Some (Suc n, Inl err)
         | Inr operation' \<Rightarrow> poll_loop query (Suc n) operation')
      else Some (n, Inr operation))"

text \<open>\<^verbatim>\<open>operation.response?.generatedVideos?.[0]?.video?.uri\<close>.\<close>

definition downloadLink_of :: "Operation \<Rightarrow> string option" where
  "downloadLink_of operation =
     (case op_response operation of
        None \<Rightarrow> None
      | Some r \<Rightarrow>
          (case generatedVideos r of
             None \<Rightarrow> None
           | Some vs \<Rightarrow>
               (case at_index vs 0 of
                  None \<Rightarrow> None
                | Some g \<Rightarrow> (case video g of None \<Rightarrow> None | Some v \<Rightarrow> uri v))))"

definition build_payload :: "string \<Rightarrow> video_config \<Rightarrow> exn + video_payload" where
  "build_payload prompt config =
     (let generationConfig =
            \<lparr>numberOfVideos = 1, resolution = ''720p'', gen_aspectRatio = aspectRatio config\<rparr>;
          payload = \<lparr>vp_model = ''veo-3.1-fast-generate-preview'',
                     vp_prompt = (if prompt \<noteq> [] then Some prompt else None),
                     vp_image = None, vp_config = generationConfig\<rparr>
      in (case imageFile config of
            None \<Rightarrow> Inr payload
          | Some file \<Rightarrow>
              (case fileToGenerativePart file of
                 Inl err \<Rightarrow> Inl err
               | Inr imagePart \<Rightarrow>
                   Inr (payload\<lparr>vp_image :=
                          Some \<lparr>pi_imageBytes = data imagePart,
                                pi_mimeType = mimeType imagePart\<rparr>\<rparr>))))"

text \<open>What follows the loop: the error check, the link check, the two yields, the fetch.\<close>

definition after_poll :: "env \<Rightarrow> video_backend \<Rightarrow> request list \<Rightarrow> Operation \<Rightarrow> video_run" where
  "after_poll e b reqs operation =
     (case op_error operation of
        Some err \<Rightarrow>
          \<lparr>yielded = [], remote = reqs,
           thrown = Some (Error (''Video generation failed: '' @ render (message err)))\<rparr>
      | None \<Rightarrow>
          if \<not> truthy (downloadLink_of operation) then
            \<lparr>yielded = [], remote = reqs,
             thrown = Some (Error ''Video generation failed to produce a download link.'')\<rparr>
          else
            let url = render (downloadLink_of operation) @ ''&key='' @ render (API_KEY e);
                reqs' = reqs @ [Fetch url]
            in (case fetch b url of
                  Inl err \<Rightarrow> \<lparr>yielded = [Fetching], remote = reqs', thrown = Some err\<rparr>
                | Inr response \<Rightarrow>
                    if \<not> ok response then
                      \<lparr>yielded = [Fetching], remote = reqs',
                       thrown = Some (Error (''Failed to fetch video: '' @ statusText response))\<rparr>
                    else
                      (case blob response of
                         Inl err \<Rightarrow> \<lparr>yielded = [Fetching], remote = reqs', thrown = Some err\<rparr>
                       | Inr videoBlob \<Rightarrow>
                           \<lparr>yielded = [Fetching, Completed (createObjectURL b videoBlob)],
                            remote = reqs', thrown = None\<rparr>)))"

definition generateVideo ::
  "env \<Rightarrow> video_backend \<Rightarrow> string \<Rightarrow> video_config \<Rightarrow> video_run option" where
  "generateVideo e b prompt config =
     (if \<not> truthy (API_KEY e) then
        Some \<lparr>yielded = [], remote = [],
              thrown = Some (Error ''API_KEY environment variable not set'')\<rparr>
      else
        (case build_payload prompt config of
           Inl err \<Rightarrow> Some \<lparr>yielded = [], remote = [], thrown = Some err\<rparr>
         | Inr payload \<Rightarrow>
             (case generateVideos b (API_KEY e) payload of
                Inl err \<Rightarrow> Some \<lparr>yielded = [], remote = [GenerateVideos], thrown = Some err\<rparr>
              | Inr operation \<Rightarrow>
                  (case poll_loop (getVideosOperation b) 0 operation of
                     None \<Rightarrow> None
                   | Some (n, Inl err) \<Rightarrow>
                       Some \<lparr>yielded = [],
                             remote = GenerateVideos # replicate n GetVideosOperation,
                             thrown = Some err\<rparr>
                   | Some (n, Inr operation') \<Rightarrow>
                       Some (after_poll e b
                               (GenerateVideos # replicate n GetVideosOperation) operation')))))"

section \<open>Audio synthesis\<close>

record tts_part =
  part_inlineData :: "inlineData option"

record tts_content =
  parts :: "tts_part list option"

record candidate =
  content :: "tts_content option"

record tts_response =
  candidates :: "candidate list option"

text \<open>
  The SDK for speech. \<^verbatim>\<open>generateAudio\<close> has no check of its own: it hands
  \<^verbatim>\<open>process.env.API_KEY\<close> as it is to \<^verbatim>\<open>new GoogleGenAI\<close>, so here, and only here, the
  constructor can meet an absent key. \<open>new_client sdk k\<close> is what the constructor throws on
  key \<open>k\<close> (\<open>None\<close>: it returns a client); \<open>tts_generateContent sdk k voice txt\<close> is the
  answer to the one \<^verbatim>\<open>ai.models.generateContent\<close> call of a client built with \<open>k\<close>. In the
  guarded functions the constructor only ever meets a key the guard found present, and is
  taken to return.
\<close>

record tts_sdk =
  new_client :: "string option \<Rightarrow> exn option"
  tts_generateContent :: "string option \<Rightarrow> string \<Rightarrow> string \<Rightarrow> exn + tts_response"

definition apiVoiceName_of :: "string \<Rightarrow> string" where
  "apiVoiceName_of voiceName =
     (if voiceName = ''Prabhas'' then ''Fenrir''
      else if voiceName = ''Human'' then ''Zephyr''
      else voiceName)"

text \<open>\<^verbatim>\<open>response.candidates?.[0]?.content?.parts?.[0]?.inlineData?.data\<close>.\<close>

definition base64Audio_of :: "tts_response \<Rightarrow> string option" where
  "base64Audio_of response =
     (case candidates response of
        None \<Rightarrow> None
      | Some cs \<Rightarrow>
          (case at_index cs 0 of
             None \<Rightarrow> None
           | Some c \<Rightarrow>
               (case content c of
                  None \<Rightarrow> None
                | Some ct \<Rightarrow>
                    (case parts ct of
                       None \<Rightarrow> None
                     | Some ps \<Rightarrow>
                         (case at_index ps 0 of
                            None \<Rightarrow> None
                          | Some pt \<Rightarrow>
                              (case part_inlineData pt of
                                 None \<Rightarrow> None
                               | Some d \<Rightarrow> data d))))))"

text \<open>The result and the remote requests issued.\<close>

definition generateAudio ::
  "env \<Rightarrow> tts_sdk \<Rightarrow> string \<Rightarrow> string \<Rightarrow> (exn + string) \<times> request list" where
  "generateAudio e sdk txt voiceName =
     (case new_client sdk (API_KEY e) of
        Some err \<Rightarrow> (Inl err, [])
      | None \<Rightarrow>
          (case tts_generateContent sdk (API_KEY e) (apiVoiceName_of voiceName) txt of
             Inl err \<Rightarrow> (Inl err, [GenerateContent ''gemini-2.5-flash-preview-tts''])
           | Inr response \<Rightarrow>
               if \<not> truthy (base64Audio_of response) then
                 (Inl (Error ''Failed to generate audio data.''),
                  [GenerateContent ''gemini-2.5-flash-preview-tts''])
               else
                 (Inr (render (base64Audio_of response)),
                  [GenerateContent ''gemini-2.5-flash-preview-tts''])))"

section \<open>Live transcription\<close>

record Transcription =
  tr_text :: string

record server_content =
  inputTranscription :: "Transcription option"
  turnComplete :: bool

record LiveServerMessage =
  serverContent :: "server_content option"

text \<open>
  An invocation of one of the caller's \<^verbatim>\<open>TranscriptionCallbacks\<close>. The callbacks are the
  caller's code: the model records that one was invoked and with what, not what it does.
\<close>

datatype callback = OnTranscriptionUpdate string bool | OnError exn | OnClose

text \<open>
  The \<^verbatim>\<open>onmessage\<close> handler. \<^verbatim>\<open>currentTranscript\<close> is the variable its closure keeps
  between messages; the result is its new value and the callbacks invoked, in order.
\<close>

definition onmessage :: "string \<Rightarrow> LiveServerMessage \<Rightarrow> string \<times> callback list" where
  "onmessage currentTranscript msg =
     (let (cur, calls) =
            (case serverContent msg of
               None \<Rightarrow> (currentTranscript, [])
             | Some sc \<Rightarrow>
                 (case inputTranscription sc of
                    None \<Rightarrow> (currentTranscript, [])
                  | Some t \<Rightarrow> (tr_text t, [OnTranscriptionUpdate (tr_text t) False])))
      in if (case serverContent msg of None \<Rightarrow> False | Some sc \<Rightarrow> turnComplete sc) then
           (if cur \<noteq> [] then ([], calls @ [OnTranscriptionUpdate cur True])
            else (cur, calls))
         else (cur, calls))"

text \<open>The handler over the messages of one session, from the buffer a session starts with.\<close>

fun onmessages :: "string \<Rightarrow> LiveServerMessage list \<Rightarrow> string \<times> callback list" where
  "onmessages cur [] = (cur, [])"
| "onmessages cur (m # ms) =
     (let (cur1, calls1) = onmessage cur m;
          (cur2, calls2) = onmessages cur1 ms
      in (cur2, calls1 @ calls2))"

text \<open>
  The module-level handle \<^verbatim>\<open>liveSessionPromise\<close> (the promise \<^verbatim>\<open>ai.live.connect\<close>
  returned, by reference, or \<^verbatim>\<open>null\<close>); the number of \<^verbatim>\<open>ai.live.connect\<close> calls made so
  far, the \<open>n\<close>-th call opening connection \<open>n\<close> and returning promise \<open>n\<close>; the sessions
  that exist, that is the connections opened whose close event has not arrived yet; the
  promises on which \<^verbatim>\<open>stopTranscriptionSession\<close> has chained its
  \<^verbatim>\<open>then/catch/finally\<close>; the number of \<^verbatim>\<open>session.close()\<close> calls; the console; the
  callbacks invoked.
\<close>

record live_state =
  liveSessionPromise :: "nat option"
  connections :: nat
  open_sessions :: "nat list"
  closing :: "nat list"
  close_calls :: nat
  live_console :: "string list"
  invoked :: "callback list"

definition init_live_state :: live_state where
  "init_live_state =
     \<lparr>liveSessionPromise = None, connections = 0, open_sessions = [], closing = [],
      close_calls = 0, live_console = [], invoked = []\<rparr>"

definition startTranscriptionSession :: "env \<Rightarrow> live_state \<Rightarrow> live_state" where
  "startTranscriptionSession e st =
     (case liveSessionPromise st of
        Some _ \<Rightarrow>
          st\<lparr>live_console := live_console st @ [''Transcription session already in progress.'']\<rparr>
      | None \<Rightarrow>
          if \<not> truthy (API_KEY e) then
            st\<lparr>invoked := invoked st @ [OnError (Error ''API_KEY environment variable not set'')]\<rparr>
          else
            st\<lparr>liveSessionPromise := Some (connections st),
               connections := Suc (connections st),
               open_sessions := open_sessions st @ [connections st]\<rparr>)"













section \<open>Concrete inputs\<close>

text \<open>Small environments, providers and states on which the theorems below are run.\<close>

definition env_k :: env where
  "env_k = \<lparr>API_KEY = Some ''k''\<rparr>"

definition env_none :: env where
  "env_none = \<lparr>API_KEY = None\<rparr>"

definition chat0 :: Chat where
  "chat0 = \<lparr>chat_ref = 0, chat_apiKey = Some ''k'', chat_model = ''gemini-2.5-flash'',
            chat_cfg = base_config\<rparr>"

definition chat_state1 :: chat_state where
  "chat_state1 = \<lparr>chats = (\<lambda>_. None)(standard \<mapsto> chat0), next_ref = 1, chat_console = []\<rparr>"

definition failing_send :: chat_backend where
  "failing_send = (\<lambda>c m. Inl (Foreign ''503 Service Unavailable''))"

definition ok_send :: chat_backend where
  "ok_send = (\<lambda>c m. Inr ''Hello!'')"

definition pending_op :: Operation where
  "pending_op = \<lparr>op_done = False, op_error = None, op_response = None\<rparr>"

definition done_op :: Operation where
  "done_op = \<lparr>op_done = True, op_error = None,
     op_response = Some \<lparr>generatedVideos =
       Some [\<lparr>video = Some \<lparr>uri = Some ''https://v/1?alt=media''\<rparr>\<rparr>]\<rparr>\<rparr>"

definition failed_op :: Operation where
  "failed_op = \<lparr>op_done = True, op_error = Some \<lparr>message = Some ''RESOURCE_EXHAUSTED''\<rparr>,
     op_response = None\<rparr>"

definition ok_response :: http_response where
  "ok_response = \<lparr>ok = True, statusText = ''OK'', blob = Inr ''mp4''\<rparr>"

definition forbidden_response :: http_response where
  "forbidden_response = \<lparr>ok = False, statusText = ''Forbidden'', blob = Inr []\<rparr>"

text \<open>A job that answers two status queries with \<^verbatim>\<open>done=false\<close> and the third with the video.\<close>

definition backend_slow :: video_backend where
  "backend_slow =
     \<lparr>generateVideos = (\<lambda>k p. Inr pending_op),
      getVideosOperation = (\<lambda>n operation. if n < 2 then Inr pending_op else Inr done_op),
      fetch = (\<lambda>u. Inr ok_response),
      createObjectURL = (\<lambda>bytes. ''blob:'' @ bytes)\<rparr>"

text \<open>
  A job that answers two status queries with \<^verbatim>\<open>done=false\<close> and the third with
  \<^verbatim>\<open>done=true\<close> and an error.
\<close>

definition backend_failed :: video_backend where
  "backend_failed =
     \<lparr>generateVideos = (\<lambda>k p. Inr pending_op),
      getVideosOperation = (\<lambda>n operation. if n < 2 then Inr pending_op else Inr failed_op),
      fetch = (\<lambda>u. Inr ok_response),
      createObjectURL = (\<lambda>bytes. ''blob:'' @ bytes)\<rparr>"

text \<open>
  A job that answers two status queries with \<^verbatim>\<open>done=false\<close> and the third with the
  video, which the download then refuses.
\<close>

definition backend_forbidden :: video_backend where
  "backend_forbidden =
     \<lparr>generateVideos = (\<lambda>k p. Inr pending_op),
      getVideosOperation = (\<lambda>n operation. if n < 2 then Inr pending_op else Inr done_op),
      fetch = (\<lambda>u. Inr forbidden_response),
      createObjectURL = (\<lambda>bytes. ''blob:'' @ bytes)\<rparr>"

definition ops_slow :: "nat \<Rightarrow> Operation" where
  "ops_slow i = (if i \<le> 2 then pending_op else done_op)"

definition ops_failed :: "nat \<Rightarrow> Operation" where
  "ops_failed i = (if i \<le> 2 then pending_op else failed_op)"

definition config0 :: video_config where
  "config0 = \<lparr>aspectRatio = V_16_9, imageFile = None\<rparr>"

definition payload0 :: video_payload where
  "payload0 = \<lparr>vp_model = ''veo-3.1-fast-generate-preview'', vp_prompt = Some ''a cat'',
      vp_image = None,
      vp_config = \<lparr>numberOfVideos = 1, resolution = ''720p'', gen_aspectRatio = V_16_9\<rparr>\<rparr>"

definition empty_images :: images_backend where
  "empty_images = (\<lambda>k r. Inr \<lparr>generatedImages = Some []\<rparr>)"

definition frag :: "string \<Rightarrow> LiveServerMessage" where
  "frag t = \<lparr>serverContent =
     Some \<lparr>inputTranscription = Some \<lparr>tr_text = t\<rparr>, turnComplete = False\<rparr>\<rparr>"

definition turn_end :: LiveServerMessage where
  "turn_end = \<lparr>serverContent = Some \<lparr>inputTranscription = None, turnComplete = True\<rparr>\<rparr>"



definition image_file :: File where
  "image_file = \<lparr>file_type = ''image/png'', file_read = ReadString ''data:image/png;base64,QUJD''\<rparr>"

definition analysis_ok :: content_backend where
  "analysis_ok = (\<lambda>k m p d. Inr ''A cat.'')"

text \<open>
  The SDK's browser client: the constructor throws when it is given no key; with a key
  the speech request is answered.
\<close>

definition browser_sdk :: tts_sdk where
  "browser_sdk =
     \<lparr>new_client = (\<lambda>k. case k of
          None \<Rightarrow> Some (Foreign ''An API Key must be set when running in a browser'')
        | Some _ \<Rightarrow> None),
      tts_generateContent = (\<lambda>k v t. Inr \<lparr>candidates = Some [\<lparr>content = Some \<lparr>parts =
        Some [\<lparr>part_inlineData =
          Some \<lparr>data = Some ''UklGRg=='', mimeType = ''audio/pcm''\<rparr>\<rparr>]\<rparr>\<rparr>]\<rparr>)\<rparr>"

text \<open>
  Between two calls for \<open>standard\<close>: the other personalities are cleared and used, and
  \<open>standard\<close> itself has a turn that succeeds.
\<close>

definition quiet_ops :: "chat_op list" where
  "quiet_ops = [Clear fast, Get env_k creative, Turn env_k ok_send ''hi'' standard,
                Turn env_k failing_send ''hi'' fast]"

section \<open>The chat cache: reuse, eviction, the single failure message\<close>

lemma cache_ok_iff:
  "cache_ok st \<longleftrightarrow> (\<forall>p c. chats st p = Some c \<longrightarrow> chat_ref c < next_ref st)"
proof
  assume a: "cache_ok st"
  show "\<forall>p c. chats st p = Some c \<longrightarrow> chat_ref c < next_ref st"
  proof (intro allI impI)
    fix p c assume "chats st p = Some c"
    with a show "chat_ref c < next_ref st"
      by (cases p) (simp_all add: cache_ok_def)
  qed
next
  assume "\<forall>p c. chats st p = Some c \<longrightarrow> chat_ref c < next_ref st"
  then show "cache_ok st"
    by (simp add: cache_ok_def split: option.split)
qed

lemma cache_ok_init: "cache_ok init_chat_state"
  by (simp add: cache_ok_def init_chat_state_def)

lemma cache_ok_clear: "cache_ok st \<Longrightarrow> cache_ok (clearChatHistory p st)"
  by (simp add: cache_ok_iff clearChatHistory_def)

lemma cache_ok_on_send_error: "cache_ok st \<Longrightarrow> cache_ok (on_send_error err p st)"
  by (simp add: cache_ok_iff on_send_error_def)

lemma getChatInstance_cached:
  "chats st p = Some c \<Longrightarrow> getChatInstance e st p = Inr (c, st)"
  by (simp add: getChatInstance_def)

lemma getChatInstance_result:
  assumes "getChatInstance e st p = Inr (c, st1)"
  shows "chats st1 p = Some c"
  using assms
  by (auto simp: getChatInstance_def Let_def split: option.splits if_splits prod.splits)

lemma getChatInstance_ref:
  assumes "cache_ok st" "getChatInstance e st p = Inr (c, st1)"
  shows "chat_ref c < next_ref st1"
  using assms
  by (auto simp: getChatInstance_def cache_ok_iff Let_def
      split: option.splits if_splits prod.splits)

lemma getChatInstance_ok:
  assumes "cache_ok st" "getChatInstance e st p = Inr (c, st1)"
  shows "cache_ok st1"
  using assms
  by (auto simp: getChatInstance_def cache_ok_iff Let_def less_Suc_eq
      split: option.splits if_splits prod.splits)

lemma getChatInstance_mono:
  assumes "getChatInstance e st p = Inr (c, st1)"
  shows "next_ref st \<le> next_ref st1"
  using assms
  by (auto simp: getChatInstance_def Let_def split: option.splits if_splits prod.splits)

lemma getChatInstance_new:
  assumes "chats st p = None" "getChatInstance e st p = Inr (c, st1)"
  shows "chat_ref c = next_ref st \<and> next_ref st1 = Suc (next_ref st)
     \<and> chats st1 = (chats st)(p \<mapsto> c)"
  using assms
  by (auto simp: getChatInstance_def Let_def split: if_splits prod.splits)

lemma getChatInstance_creates:
  assumes "chats st p = None" "truthy (API_KEY e)"
  shows "\<exists>c st1. getChatInstance e st p = Inr (c, st1)"
  using assms by (simp add: getChatInstance_def Let_def split: prod.splits)

lemma getChatInstance_no_key:
  assumes "chats st p = None" "\<not> truthy (API_KEY e)"
  shows "getChatInstance e st p = Inl (Error ''API_KEY environment variable not set'')"
  using assms by (simp add: getChatInstance_def)

lemma getChatInstance_first:
  "getChatInstance env_k init_chat_state standard = Inr (chat0, chat_state1)"
  by (simp add: getChatInstance_def env_k_def init_chat_state_def truthy_def chat0_def
      Let_def chat_state1_def)

lemma sendMessageToAI_failure_state:
  assumes "sendMessageToAI e send st msg P = (Inl err, st', reqs)"
  shows "(\<exists>err0. st' = on_send_error err0 P st \<and> reqs = []
            \<and> getChatInstance e st P = Inl err0)
       \<or> (\<exists>err0 c st1. st' = on_send_error err0 P st1
             \<and> getChatInstance e st P = Inr (c, st1)
             \<and> send c msg = Inl err0
             \<and> reqs = [SendMessage (chat_ref c) msg])"
  using assms
  by (auto simp: sendMessageToAI_def split: sum.splits prod.splits)

text \<open>The allocation invariant survives a chat turn, whether it succeeds or fails.\<close>

lemma sendMessageToAI_cache_ok:
  assumes "cache_ok st"
  shows "cache_ok (fst (snd (sendMessageToAI e send st msg P)))"
proof (cases "getChatInstance e st P")
  case (Inl err)
  then show ?thesis
    using assms by (simp add: sendMessageToAI_def cache_ok_on_send_error)
next
  case (Inr r)
  obtain c st1 where r: "r = (c, st1)" by (cases r)
  have "cache_ok st1" using assms Inr unfolding r by (rule getChatInstance_ok)
  then show ?thesis
    using Inr r by (simp add: sendMessageToAI_def cache_ok_on_send_error split: sum.splits)
qed

text \<open>Operations leave the entries of other personalities alone.\<close>

lemma getChatInstance_keeps:
  assumes "chats st P = Some c" "getChatInstance e st Q = Inr (c', st1)"
  shows "chats st1 P = Some c"
  using assms
  by (auto simp: getChatInstance_def Let_def split: option.splits if_splits prod.splits)

lemma on_send_error_keeps:
  "Q \<noteq> P \<Longrightarrow> chats (on_send_error err Q st) P = chats st P"
  by (simp add: on_send_error_def)

lemma sendMessageToAI_keeps:
  assumes cached: "chats st P = Some c"
    and quiet: "\<not> (Q = P \<and> isl (fst (sendMessageToAI e send st m Q)))"
  shows "chats (fst (snd (sendMessageToAI e send st m Q))) P = Some c"
proof (cases "getChatInstance e st Q")
  case (Inl err)
  then have "Q \<noteq> P"
    using quiet by (auto simp: sendMessageToAI_def)
  then show ?thesis
    using Inl cached by (simp add: sendMessageToAI_def on_send_error_keeps)
next
  case (Inr r)
  obtain c' st1 where r: "r = (c', st1)" by (cases r)
  have kept: "chats st1 P = Some c"
    using cached Inr unfolding r by (rule getChatInstance_keeps)
  show ?thesis
  proof (cases "send c' m")
    case (Inl err)
    then have "Q \<noteq> P"
      using quiet Inr r by (auto simp: sendMessageToAI_def)
    then show ?thesis
      using Inl Inr r kept by (simp add: sendMessageToAI_def on_send_error_keeps)
  next
    case (Inr reply)
    then show ?thesis
      using \<open>getChatInstance e st Q = Inr r\<close> r kept by (simp add: sendMessageToAI_def)
  qed
qed

lemma chat_step_keeps:
  assumes "chats st P = Some c" "\<not> evicts P st x"
  shows "chats (chat_step st x) P = Some c"
proof (cases x)
  case (Get e Q)
  show ?thesis
  proof (cases "getChatInstance e st Q")
    case (Inl err)
    then show ?thesis using Get assms by simp
  next
    case (Inr r)
    obtain c' st1 where r: "r = (c', st1)" by (cases r)
    have "chats st1 P = Some c"
      using assms(1) Inr unfolding r by (rule getChatInstance_keeps)
    then show ?thesis using Get Inr r by simp
  qed
next
  case (Clear Q)
  then show ?thesis using assms by (simp add: clearChatHistory_def)
next
  case (Turn e send m Q)
  then show ?thesis using assms by (simp add: sendMessageToAI_keeps)
qed

lemma chat_run_keeps:
  assumes "chats st P = Some c" "undisturbed P st xs"
  shows "chats (foldl chat_step st xs) P = Some c"
  using assms by (induction xs arbitrary: st) (simp_all add: chat_step_keeps)

lemma chat_step_cache_ok: "cache_ok st \<Longrightarrow> cache_ok (chat_step st x)"
proof (cases x)
  case (Get e Q)
  assume ok: "cache_ok st"
  show ?thesis
  proof (cases "getChatInstance e st Q")
    case (Inl err)
    then show ?thesis using Get ok by simp
  next
    case (Inr r)
    obtain c' st1 where r: "r = (c', st1)" by (cases r)
    have "cache_ok st1" using ok Inr unfolding r by (rule getChatInstance_ok)
    then show ?thesis using Get Inr r by simp
  qed
next
  case (Clear Q)
  assume "cache_ok st"
  then show ?thesis using Clear by (simp add: cache_ok_clear)
next
  case (Turn e send m Q)
  assume "cache_ok st"
  then show ?thesis using Turn by (simp add: sendMessageToAI_cache_ok)
qed

lemma chat_run_cache_ok: "cache_ok st \<Longrightarrow> cache_ok (foldl chat_step st xs)"
  by (induction xs arbitrary: st) (simp_all add: chat_step_cache_ok)

lemma quiet_ops_undisturbed: "undisturbed standard chat_state1 quiet_ops"
  by (simp add: quiet_ops_def chat_state1_def clearChatHistory_def getChatInstance_def
      sendMessageToAI_def on_send_error_def ok_send_def failing_send_def env_k_def truthy_def
      Let_def)

lemma failing_turn_standard:
  "sendMessageToAI env_k failing_send chat_state1 ''hi'' standard
     = (Inl comm_failure, on_send_error (Foreign ''503 Service Unavailable'') standard chat_state1,
        [SendMessage 0 ''hi''])"
  by (simp add: sendMessageToAI_def getChatInstance_def chat_state1_def failing_send_def
      chat0_def)

text \<open>
  Claim C4, as the code has it. Once \<open>getChatInstance P\<close> has returned a session, and
  after any run of operations none of which is a \<open>clearChatHistory P\<close> or a failing turn
  for \<open>P\<close> (operations on other personalities and successful turns for \<open>P\<close> may happen),
  the next call for \<open>P\<close> returns the same instance and leaves the state as it is,
  whatever the environment then holds. After \<open>clearChatHistory P\<close>, a call that returns
  yields an instance allocated by that call (its reference is the allocator's next one,
  so it differs from the old instance), and with a credential present the call does
  return. \<open>clearChatHistory Q\<close> with no session cached for \<open>Q\<close> changes nothing.
\<close>

theorem getChatInstance_reuse_until_evicted:
  assumes ok: "cache_ok st" and got: "getChatInstance e st P = Inr (c, st1)"
    and quiet: "undisturbed P st1 xs"
  shows "getChatInstance e' (foldl chat_step st1 xs) P = Inr (c, foldl chat_step st1 xs)
       \<and> (\<forall>c' st2. getChatInstance e' (clearChatHistory P (foldl chat_step st1 xs)) P
                       = Inr (c', st2)
             \<longrightarrow> chat_ref c' = next_ref (foldl chat_step st1 xs) \<and> chat_ref c' \<noteq> chat_ref c
                 \<and> chats st2 P = Some c')
       \<and> (truthy (API_KEY e')
             \<longrightarrow> (\<exists>c' st2. getChatInstance e' (clearChatHistory P (foldl chat_step st1 xs)) P
                              = Inr (c', st2)))
       \<and> (chats st Q = None \<longrightarrow> clearChatHistory Q st = st)"
proof (intro conjI allI impI)
  let ?s = "foldl chat_step st1 xs"
  have cached: "chats ?s P = Some c"
    using getChatInstance_result [OF got] quiet by (rule chat_run_keeps)
  have ok': "cache_ok ?s"
    using getChatInstance_ok [OF ok got] by (rule chat_run_cache_ok)
  show "getChatInstance e' ?s P = Inr (c, ?s)"
    using cached by (rule getChatInstance_cached)
  {
    fix c' st2
    assume new: "getChatInstance e' (clearChatHistory P ?s) P = Inr (c', st2)"
    have none: "chats (clearChatHistory P ?s) P = None"
      by (simp add: clearChatHistory_def)
    have r: "chat_ref c' = next_ref ?s"
      using getChatInstance_new [OF none new] by (simp add: clearChatHistory_def)
    then show "chat_ref c' = next_ref ?s" .
    have "chat_ref c < next_ref ?s"
      using ok' cached by (simp add: cache_ok_iff)
    then show "chat_ref c' \<noteq> chat_ref c"
      using r by simp
    show "chats st2 P = Some c'"
      using new by (rule getChatInstance_result)
  }
  {
    assume "truthy (API_KEY e')"
    then show "\<exists>c' st2. getChatInstance e' (clearChatHistory P ?s) P = Inr (c', st2)"
      by (intro getChatInstance_creates) (simp_all add: clearChatHistory_def)
  }
  {
    assume "chats st Q = None"
    then have "(chats st)(Q := None) = chats st" by (metis fun_upd_triv)
    then show "clearChatHistory Q st = st" by (simp add: clearChatHistory_def)
  }
qed

theorem getChatInstance_reuse_until_evicted_witness:
  "getChatInstance env_none (foldl chat_step chat_state1 quiet_ops) standard
     = Inr (chat0, foldl chat_step chat_state1 quiet_ops)
   \<and> (\<exists>c' st2. getChatInstance env_k
          (clearChatHistory standard (foldl chat_step chat_state1 quiet_ops)) standard
          = Inr (c', st2) \<and> chat_ref c' \<noteq> chat_ref chat0)
   \<and> clearChatHistory fast init_chat_state = init_chat_state"
proof -
  note t = getChatInstance_reuse_until_evicted
             [OF cache_ok_init getChatInstance_first quiet_ops_undisturbed]
  have key: "truthy (API_KEY env_k)"
    by (simp add: env_k_def truthy_def)
  have empty: "chats init_chat_state fast = None"
    by (simp add: init_chat_state_def)
  have a: "getChatInstance env_none (foldl chat_step chat_state1 quiet_ops) standard
     = Inr (chat0, foldl chat_step chat_state1 quiet_ops)"
    by (rule t [THEN conjunct1])
  obtain c' st2 where
    new: "getChatInstance env_k
            (clearChatHistory standard (foldl chat_step chat_state1 quiet_ops)) standard
          = Inr (c', st2)"
    using t [of env_k, THEN conjunct2, THEN conjunct2, THEN conjunct1, THEN mp, OF key]
    by (elim exE)
  have "chat_ref c' = next_ref (foldl chat_step chat_state1 quiet_ops)
        \<and> chat_ref c' \<noteq> chat_ref chat0 \<and> chats st2 standard = Some c'"
    by (rule t [of env_k, THEN conjunct2, THEN conjunct1, THEN spec, THEN spec, THEN mp, OF new])
  then have b: "\<exists>c' st2. getChatInstance env_k
          (clearChatHistory standard (foldl chat_step chat_state1 quiet_ops)) standard
          = Inr (c', st2) \<and> chat_ref c' \<noteq> chat_ref chat0"
    using new by auto
  have c: "clearChatHistory fast init_chat_state = init_chat_state"
    by (rule t [THEN conjunct2, THEN conjunct2, THEN conjunct2, THEN mp, OF empty])
  show ?thesis using a b c by (intro conjI)
qed

text \<open>
  Claim C4 as stated fails: a turn for \<open>standard\<close> that fails deletes its entry, so with
  no \<open>clearChatHistory\<close> between them the second \<open>getChatInstance standard\<close> returns
  another instance than the first.
\<close>

theorem failed_turn_renews_instance:
  "getChatInstance env_k init_chat_state standard = Inr (chat0, chat_state1)
   \<and> isl (fst (sendMessageToAI env_k failing_send chat_state1 ''hi'' standard))
   \<and> (\<exists>c' st2. getChatInstance env_k
          (chat_step chat_state1 (Turn env_k failing_send ''hi'' standard)) standard
          = Inr (c', st2) \<and> chat_ref c' = 1 \<and> chat_ref c' \<noteq> chat_ref chat0)"
proof (intro conjI)
  show "getChatInstance env_k init_chat_state standard = Inr (chat0, chat_state1)"
    by (rule getChatInstance_first)
  show "isl (fst (sendMessageToAI env_k failing_send chat_state1 ''hi'' standard))"
    by (simp add: failing_turn_standard)
  have step: "chat_step chat_state1 (Turn env_k failing_send ''hi'' standard)
      = on_send_error (Foreign ''503 Service Unavailable'') standard chat_state1"
    by (simp add: failing_turn_standard)
  show "\<exists>c' st2. getChatInstance env_k
          (chat_step chat_state1 (Turn env_k failing_send ''hi'' standard)) standard
          = Inr (c', st2) \<and> chat_ref c' = 1 \<and> chat_ref c' \<noteq> chat_ref chat0"
    unfolding step
    by (simp add: getChatInstance_def on_send_error_def chat_state1_def
        env_k_def truthy_def Let_def chat0_def)
qed

text \<open>
  Claim C3. When \<open>sendMessageToAI\<close> fails for personality \<open>P\<close> (session creation threw,
  or the provider's send threw), the state it leaves has no session cached for \<open>P\<close>. A
  later \<open>getChatInstance P\<close> that returns yields an instance allocated by that call: its
  reference is above that of every session cached before the failing turn and of the
  session the failing turn sent to. With a credential present it does return.
\<close>

theorem sendMessageToAI_failure_evicts:
  assumes ok: "cache_ok st"
    and failed: "sendMessageToAI e send st msg P = (Inl err, st', reqs)"
  shows "chats st' P = None
       \<and> cache_ok st'
       \<and> (\<forall>e' c st2. getChatInstance e' st' P = Inr (c, st2)
             \<longrightarrow> chat_ref c = next_ref st' \<and> chats st2 P = Some c
                 \<and> (\<forall>Q c0. chats st Q = Some c0 \<longrightarrow> chat_ref c0 < chat_ref c)
                 \<and> (\<forall>r m. SendMessage r m \<in> set reqs \<longrightarrow> r < chat_ref c))
       \<and> (\<forall>e'. truthy (API_KEY e') \<longrightarrow> (\<exists>c st2. getChatInstance e' st' P = Inr (c, st2)))"
proof -
  from sendMessageToAI_failure_state [OF failed]
  have facts: "chats st' P = None \<and> cache_ok st' \<and> next_ref st \<le> next_ref st'
     \<and> (\<forall>r m. SendMessage r m \<in> set reqs \<longrightarrow> r < next_ref st')"
  proof (elim disjE exE conjE)
    fix err0
    assume "st' = on_send_error err0 P st" "reqs = []"
    then show ?thesis
      using ok by (simp add: cache_ok_on_send_error) (simp add: on_send_error_def)
  next
    fix err0 c st1
    assume a: "st' = on_send_error err0 P st1" "getChatInstance e st P = Inr (c, st1)"
      "reqs = [SendMessage (chat_ref c) msg]"
    have "cache_ok st1" using ok a(2) by (rule getChatInstance_ok)
    moreover have "chat_ref c < next_ref st1" using ok a(2) by (rule getChatInstance_ref)
    moreover have "next_ref st \<le> next_ref st1" using a(2) by (rule getChatInstance_mono)
    ultimately show ?thesis
      using a(1,3) by (simp add: cache_ok_on_send_error) (simp add: on_send_error_def)
  qed
  show ?thesis
  proof (intro conjI allI impI)
    show "chats st' P = None" using facts by simp
    show "cache_ok st'" using facts by simp
  next
    fix e' c st2
    assume g: "getChatInstance e' st' P = Inr (c, st2)"
    have n: "chat_ref c = next_ref st'"
      using getChatInstance_new [OF _ g] facts by simp
    then show "chat_ref c = next_ref st'" .
    show "chats st2 P = Some c" using g by (rule getChatInstance_result)
    {
      fix Q c0 assume "chats st Q = Some c0"
      then have "chat_ref c0 < next_ref st" using ok by (simp add: cache_ok_iff)
      then show "chat_ref c0 < chat_ref c" using n facts by simp
    }
    {
      fix r m assume "SendMessage r m \<in> set reqs"
      then show "r < chat_ref c" using n facts by auto
    }
  next
    fix e' :: env assume "truthy (API_KEY e')"
    then show "\<exists>c st2. getChatInstance e' st' P = Inr (c, st2)"
      using facts by (intro getChatInstance_creates) simp_all
  qed
qed

theorem sendMessageToAI_failure_evicts_witness:
  "chats (on_send_error (Foreign ''503 Service Unavailable'') standard chat_state1) standard = None
   \<and> (\<exists>c st2. getChatInstance env_k
          (on_send_error (Foreign ''503 Service Unavailable'') standard chat_state1) standard
          = Inr (c, st2))"
proof -
  have run: "sendMessageToAI env_k failing_send init_chat_state ''hi'' standard
      = (Inl comm_failure, on_send_error (Foreign ''503 Service Unavailable'') standard chat_state1,
         [SendMessage 0 ''hi''])"
    by (simp add: sendMessageToAI_def getChatInstance_first failing_send_def chat0_def)
  have key: "truthy (API_KEY env_k)"
    by (simp add: env_k_def truthy_def)
  note t = sendMessageToAI_failure_evicts [OF cache_ok_init run]
  have a: "chats (on_send_error (Foreign ''503 Service Unavailable'') standard chat_state1)
             standard = None"
    by (rule t [THEN conjunct1])
  have b: "\<exists>c st2. getChatInstance env_k
          (on_send_error (Foreign ''503 Service Unavailable'') standard chat_state1) standard
          = Inr (c, st2)"
    by (rule t [THEN conjunct2, THEN conjunct2, THEN conjunct2, THEN spec, THEN mp, OF key])
  show ?thesis using a b by (rule conjI)
qed

text \<open>
  Claim C10. Whatever makes \<open>sendMessageToAI\<close> fail, the error the caller gets is the
  \<^verbatim>\<open>Error\<close> with the one fixed message. With no cached session and no credential the
  result is that error, with no remote request issued; when the provider's send throws
  any \<open>err0\<close> the result is the same error. The caught error only reaches the console.
\<close>

theorem sendMessageToAI_single_failure_message:
  "(\<forall>err st' reqs. sendMessageToAI e send st msg P = (Inl err, st', reqs)
       \<longrightarrow> err = Error ''Failed to communicate with the Mani Ai service.'')
   \<and> (chats st P = None \<and> \<not> truthy (API_KEY e)
       \<longrightarrow> sendMessageToAI e send st msg P
           = (Inl (Error ''Failed to communicate with the Mani Ai service.''),
              on_send_error (Error ''API_KEY environment variable not set'') P st, []))
   \<and> (\<forall>c st1 err0. getChatInstance e st P = Inr (c, st1) \<and> send c msg = Inl err0
       \<longrightarrow> sendMessageToAI e send st msg P
           = (Inl (Error ''Failed to communicate with the Mani Ai service.''),
              on_send_error err0 P st1, [SendMessage (chat_ref c) msg]))"
  by (auto simp: sendMessageToAI_def comm_failure_def getChatInstance_no_key
      split: sum.splits prod.splits)

theorem sendMessageToAI_single_failure_message_witness:
  "sendMessageToAI env_none ok_send init_chat_state ''hi'' standard
     = (Inl (Error ''Failed to communicate with the Mani Ai service.''),
        on_send_error (Error ''API_KEY environment variable not set'') standard init_chat_state, [])
   \<and> sendMessageToAI env_k failing_send init_chat_state ''hi'' standard
     = (Inl (Error ''Failed to communicate with the Mani Ai service.''),
        on_send_error (Foreign ''503 Service Unavailable'') standard chat_state1,
        [SendMessage 0 ''hi''])"
proof -
  have a: "chats init_chat_state standard = None \<and> \<not> truthy (API_KEY env_none)"
    by (simp add: init_chat_state_def env_none_def truthy_def)
  have b: "getChatInstance env_k init_chat_state standard = Inr (chat0, chat_state1)
      \<and> failing_send chat0 ''hi'' = Inl (Foreign ''503 Service Unavailable'')"
    by (simp add: getChatInstance_first failing_send_def)
  have c: "chat_ref chat0 = 0" by (simp add: chat0_def)
  note t1 = sendMessageToAI_single_failure_message
            [of env_none ok_send init_chat_state "''hi''" standard]
  note t2 = sendMessageToAI_single_failure_message
            [of env_k failing_send init_chat_state "''hi''" standard]
  have r1: "sendMessageToAI env_none ok_send init_chat_state ''hi'' standard
     = (Inl (Error ''Failed to communicate with the Mani Ai service.''),
        on_send_error (Error ''API_KEY environment variable not set'') standard init_chat_state, [])"
    by (rule t1 [THEN conjunct2, THEN conjunct1, THEN mp, OF a])
  have r2: "sendMessageToAI env_k failing_send init_chat_state ''hi'' standard
     = (Inl (Error ''Failed to communicate with the Mani Ai service.''),
        on_send_error (Foreign ''503 Service Unavailable'') standard chat_state1,
        [SendMessage (chat_ref chat0) ''hi''])"
    by (rule t2 [THEN conjunct2, THEN conjunct2, THEN spec, THEN spec, THEN spec, THEN mp, OF b])
  show ?thesis
    using r1 r2 unfolding c by (rule conjI)
qed

section \<open>Video generation: the polling loop, the events, the failures\<close>

lemma key_k: "truthy (API_KEY env_k)"
  by (simp add: env_k_def truthy_def)

lemma no_key: "\<not> truthy (API_KEY env_none)"
  by (simp add: env_none_def truthy_def)

lemma poll_loop_done:
  "op_done operation \<Longrightarrow> poll_loop q n operation = Some (n, Inr operation)"
  by (subst poll_loop.simps) simp

lemma poll_loop_pending:
  "\<not> op_done operation \<Longrightarrow> q n operation = Inr operation'
     \<Longrightarrow> poll_loop q n operation = poll_loop q (Suc n) operation'"
  by (subst poll_loop.simps) simp

lemma poll_loop_error:
  "\<not> op_done operation \<Longrightarrow> q n operation = Inl err
     \<Longrightarrow> poll_loop q n operation = Some (Suc n, Inl err)"
  by (subst poll_loop.simps) simp

text \<open>
  \<open>k\<close> queries answered in turn, the last answer being the first that is done: the loop
  returns that answer after exactly \<open>k\<close> queries.
\<close>

lemma poll_loop_chain:
  assumes "\<forall>i<k. \<not> op_done (ops i) \<and> q (n + i) (ops i) = Inr (ops (Suc i))"
    and "op_done (ops k)"
  shows "poll_loop q n (ops 0) = Some (n + k, Inr (ops k))"
  using assms
proof (induction k arbitrary: n ops)
  case 0
  then show ?case by (simp add: poll_loop_done)
next
  case (Suc k)
  have first: "\<not> op_done (ops 0)" "q n (ops 0) = Inr (ops (Suc 0))"
    using Suc.prems(1) by auto
  have rest: "\<forall>i<k. \<not> op_done (ops (Suc i))
      \<and> q (Suc n + i) (ops (Suc i)) = Inr (ops (Suc (Suc i)))"
    using Suc.prems(1) by auto
  have "poll_loop q (Suc n) (ops (Suc 0)) = Some (Suc n + k, Inr (ops (Suc k)))"
    using Suc.IH [of "\<lambda>i. ops (Suc i)" "Suc n"] rest Suc.prems(2) by simp
  then show ?case
    using poll_loop_pending [of "ops 0" q n "ops (Suc 0)"] first by simp
qed

text \<open>A provider that keeps answering \<^verbatim>\<open>done=false\<close>: the loop never returns.\<close>

lemma poll_loop_forever:
  assumes pending: "\<not> op_done operation" and same: "\<forall>n. q n operation = Inr operation"
  shows "poll_loop q n operation = None"
proof (rule ccontr)
  assume "poll_loop q n operation \<noteq> None"
  then obtain y where run: "poll_loop q n operation = Some y" by auto
  have "q = q \<longrightarrow> operation = operation \<longrightarrow> False"
  proof (rule poll_loop.raw_induct
      [where P = "\<lambda>q' n' op' y. q' = q \<longrightarrow> op' = operation \<longrightarrow> False", OF _ run])
    fix f q' n' op' y'
    assume ih: "\<And>q'' n'' op'' y''. f q'' n'' op'' = Some y''
        \<Longrightarrow> q'' = q \<longrightarrow> op'' = operation \<longrightarrow> False"
      and body: "(if \<not> op_done op'
          then case q' n' op' of Inl err \<Rightarrow> Some (Suc n', Inl err)
               | Inr operation' \<Rightarrow> f q' (Suc n') operation'
          else Some (n', Inr op')) = Some y'"
    show "q' = q \<longrightarrow> op' = operation \<longrightarrow> False"
    proof (intro impI)
      assume "q' = q" "op' = operation"
      with body pending same have "f q (Suc n') operation = Some y'" by simp
      with ih show False by blast
    qed
  qed
  then show False by simp
qed

lemma build_payload0: "build_payload ''a cat'' config0 = Inr payload0"
  by (simp add: build_payload_def config0_def payload0_def Let_def)

lemma downloadLink_done_op: "downloadLink_of done_op = Some ''https://v/1?alt=media''"
  by (simp add: downloadLink_of_def done_op_def at_index_def)

lemma generateVideo_after_poll:
  assumes "truthy (API_KEY e)" "build_payload prompt config = Inr payload"
    "generateVideos b (API_KEY e) payload = Inr operation0"
    "poll_loop (getVideosOperation b) 0 operation0 = Some (n, Inr operation)"
  shows "generateVideo e b prompt config =
     Some (after_poll e b (GenerateVideos # replicate n GetVideosOperation) operation)"
  using assms by (simp add: generateVideo_def)

text \<open>A status query that throws is not retried: the run ends with what it threw.\<close>

lemma generateVideo_poll_error:
  assumes "truthy (API_KEY e)" "build_payload prompt config = Inr payload"
    "generateVideos b (API_KEY e) payload = Inr operation"
    "\<not> op_done operation" "getVideosOperation b 0 operation = Inl err"
  shows "generateVideo e b prompt config =
     Some \<lparr>yielded = [], remote = [GenerateVideos, GetVideosOperation], thrown = Some err\<rparr>"
  using assms poll_loop_error [of operation "getVideosOperation b" 0 err]
  by (simp add: generateVideo_def)

text \<open>
  Claim C1. The submission returns a job that is not done; the status query answers
  \<^verbatim>\<open>done=false\<close> \<open>m\<close> times and then \<^verbatim>\<open>done=true\<close> with no error and a non-empty video
  URI; the download succeeds. Then the generator returns, having yielded exactly
  \<^verbatim>\<open>fetching\<close> and then \<^verbatim>\<open>completed\<close> with the object URL, and having issued the
  submission, exactly \<open>m + 1\<close> status queries (the last is the one answered
  \<^verbatim>\<open>done=true\<close>) and the download, in that order.
\<close>

theorem generateVideo_fetching_then_completed:
  assumes key: "truthy (API_KEY e)"
    and payload: "build_payload prompt config = Inr payload"
    and submitted: "generateVideos b (API_KEY e) payload = Inr (ops 0)"
    and pending: "\<forall>i\<le>m. \<not> op_done (ops i) \<and> getVideosOperation b i (ops i) = Inr (ops (Suc i))"
    and finished: "op_done (ops (Suc m))"
    and no_error: "op_error (ops (Suc m)) = None"
    and link: "downloadLink_of (ops (Suc m)) = Some l" "l \<noteq> []"
    and fetched: "fetch b (l @ ''&key='' @ render (API_KEY e)) = Inr response"
      "ok response" "blob response = Inr bytes"
  shows "generateVideo e b prompt config =
           Some \<lparr>yielded = [Fetching, Completed (createObjectURL b bytes)],
                 remote = GenerateVideos # replicate (Suc m) GetVideosOperation
                            @ [Fetch (l @ ''&key='' @ render (API_KEY e))],
                 thrown = None\<rparr>"
proof -
  have "\<forall>i<Suc m. \<not> op_done (ops i) \<and> getVideosOperation b (0 + i) (ops i) = Inr (ops (Suc i))"
    using pending by (simp add: less_Suc_eq_le)
  then have loop: "poll_loop (getVideosOperation b) 0 (ops 0) = Some (Suc m, Inr (ops (Suc m)))"
    using poll_loop_chain [of "Suc m" ops "getVideosOperation b" 0] finished by simp
  have "after_poll e b (GenerateVideos # replicate (Suc m) GetVideosOperation) (ops (Suc m))
      = \<lparr>yielded = [Fetching, Completed (createObjectURL b bytes)],
         remote = GenerateVideos # replicate (Suc m) GetVideosOperation
                    @ [Fetch (l @ ''&key='' @ render (API_KEY e))],
         thrown = None\<rparr>"
    using no_error link fetched by (simp add: after_poll_def truthy_def render_def Let_def)
  then show ?thesis
    using key payload submitted loop by (simp add: generateVideo_def)
qed

theorem generateVideo_fetching_then_completed_witness:
  "generateVideo env_k backend_slow ''a cat'' config0 =
     Some \<lparr>yielded = [Fetching, Completed ''blob:mp4''],
           remote = [GenerateVideos, GetVideosOperation, GetVideosOperation, GetVideosOperation,
                     Fetch ''https://v/1?alt=media&key=k''],
           thrown = None\<rparr>"
proof -
  have submitted: "generateVideos backend_slow (API_KEY env_k) payload0 = Inr (ops_slow 0)"
    by (simp add: backend_slow_def ops_slow_def)
  have pending: "\<forall>i\<le>2. \<not> op_done (ops_slow i)
      \<and> getVideosOperation backend_slow i (ops_slow i) = Inr (ops_slow (Suc i))"
  proof (intro allI impI)
    fix i :: nat assume "i \<le> 2"
    then have "i = 0 \<or> i = 1 \<or> i = 2" by arith
    then show "\<not> op_done (ops_slow i)
      \<and> getVideosOperation backend_slow i (ops_slow i) = Inr (ops_slow (Suc i))"
      by (elim disjE) (simp_all add: ops_slow_def backend_slow_def pending_op_def)
  qed
  have finished: "op_done (ops_slow (Suc 2))" "op_error (ops_slow (Suc 2)) = None"
    by (simp_all add: ops_slow_def done_op_def)
  have link: "downloadLink_of (ops_slow (Suc 2)) = Some ''https://v/1?alt=media''"
    "''https://v/1?alt=media'' \<noteq> []"
    by (simp_all add: ops_slow_def downloadLink_done_op)
  have fetched: "fetch backend_slow (''https://v/1?alt=media'' @ ''&key='' @ render (API_KEY env_k))
      = Inr ok_response" "ok ok_response" "blob ok_response = Inr ''mp4''"
    by (simp_all add: backend_slow_def ok_response_def)
  have r: "render (API_KEY env_k) = ''k''"
    by (simp add: env_k_def render_def)
  have c: "createObjectURL backend_slow ''mp4'' = ''blob:mp4''"
    by (simp add: backend_slow_def)
  from generateVideo_fetching_then_completed
         [OF key_k build_payload0 submitted pending finished link fetched]
  show ?thesis
    unfolding r c by (simp add: numeral_2_eq_2 numeral_3_eq_3)
qed

text \<open>
  Claim C6. The submission returns a job; the status query answers \<^verbatim>\<open>done=false\<close> until
  its \<open>k\<close>-th answer, which is \<^verbatim>\<open>done=true\<close> (\<open>k = 0\<close>: the job is done at submission).
  When that answer carries an error, the generator returns having thrown \<^verbatim>\<open>Error\<close> with
  the message \<^verbatim>\<open>Video generation failed: ...\<close>, having yielded nothing and issued no
  download. When it carries no error and a link, and the download answers with a
  non-success status, the generator returns having thrown \<^verbatim>\<open>Error\<close> with the message
  \<^verbatim>\<open>Failed to fetch video: ...\<close>, after yielding \<^verbatim>\<open>fetching\<close> only. The two errors are
  never equal, whatever the provider's message and the status text.
\<close>

theorem generateVideo_failure_kinds:
  assumes key: "truthy (API_KEY e)"
    and payload: "build_payload prompt config = Inr payload"
    and submitted: "generateVideos b (API_KEY e) payload = Inr (ops 0)"
    and pending: "\<forall>i<k. \<not> op_done (ops i) \<and> getVideosOperation b i (ops i) = Inr (ops (Suc i))"
    and finished: "op_done (ops k)"
  shows "(\<forall>err. op_error (ops k) = Some err \<longrightarrow>
            generateVideo e b prompt config =
              Some \<lparr>yielded = [], remote = GenerateVideos # replicate k GetVideosOperation,
                    thrown = Some (Error (''Video generation failed: '' @ render (message err)))\<rparr>)
       \<and> (\<forall>l response.
            op_error (ops k) = None \<and> downloadLink_of (ops k) = Some l \<and> l \<noteq> []
            \<and> fetch b (l @ ''&key='' @ render (API_KEY e)) = Inr response \<and> \<not> ok response \<longrightarrow>
            generateVideo e b prompt config =
              Some \<lparr>yielded = [Fetching],
                    remote = GenerateVideos # replicate k GetVideosOperation
                               @ [Fetch (l @ ''&key='' @ render (API_KEY e))],
                    thrown = Some (Error (''Failed to fetch video: '' @ statusText response))\<rparr>)
       \<and> (\<forall>x y. Error (''Video generation failed: '' @ x) \<noteq> Error (''Failed to fetch video: '' @ y))"
proof (intro conjI allI impI)
  have "\<forall>i<k. \<not> op_done (ops i) \<and> getVideosOperation b (0 + i) (ops i) = Inr (ops (Suc i))"
    using pending by simp
  then have polled: "poll_loop (getVideosOperation b) 0 (ops 0) = Some (k, Inr (ops k))"
    using poll_loop_chain [of k ops "getVideosOperation b" 0] finished by simp
  note run = generateVideo_after_poll [OF key payload submitted polled]
  {
    fix err assume "op_error (ops k) = Some err"
    then show "generateVideo e b prompt config =
              Some \<lparr>yielded = [], remote = GenerateVideos # replicate k GetVideosOperation,
                    thrown = Some (Error (''Video generation failed: '' @ render (message err)))\<rparr>"
      unfolding run by (simp add: after_poll_def)
  }
  {
    fix l response
    assume a: "op_error (ops k) = None \<and> downloadLink_of (ops k) = Some l \<and> l \<noteq> []
            \<and> fetch b (l @ ''&key='' @ render (API_KEY e)) = Inr response \<and> \<not> ok response"
    then have "render (downloadLink_of (ops k)) = l" "truthy (downloadLink_of (ops k))"
      by (simp_all add: render_def truthy_def)
    then show "generateVideo e b prompt config =
              Some \<lparr>yielded = [Fetching],
                    remote = GenerateVideos # replicate k GetVideosOperation
                               @ [Fetch (l @ ''&key='' @ render (API_KEY e))],
                    thrown = Some (Error (''Failed to fetch video: '' @ statusText response))\<rparr>"
      unfolding run using a by (simp add: after_poll_def Let_def)
  }
  {
    fix x y
    show "Error (''Video generation failed: '' @ x) \<noteq> Error (''Failed to fetch video: '' @ y)"
      by simp
  }
qed

theorem generateVideo_failure_kinds_witness:
  "generateVideo env_k backend_failed ''a cat'' config0 =
     Some \<lparr>yielded = [],
           remote = [GenerateVideos, GetVideosOperation, GetVideosOperation, GetVideosOperation],
           thrown = Some (Error ''Video generation failed: RESOURCE_EXHAUSTED'')\<rparr>
   \<and> generateVideo env_k backend_forbidden ''a cat'' config0 =
     Some \<lparr>yielded = [Fetching],
           remote = [GenerateVideos, GetVideosOperation, GetVideosOperation, GetVideosOperation,
                     Fetch ''https://v/1?alt=media&key=k''],
           thrown = Some (Error ''Failed to fetch video: Forbidden'')\<rparr>"
proof -
  have s1: "generateVideos backend_failed (API_KEY env_k) payload0 = Inr (ops_failed 0)"
    by (simp add: backend_failed_def ops_failed_def)
  have p1: "\<forall>i<3. \<not> op_done (ops_failed i)
      \<and> getVideosOperation backend_failed i (ops_failed i) = Inr (ops_failed (Suc i))"
  proof (intro allI impI)
    fix i :: nat assume "i < 3"
    then have "i = 0 \<or> i = 1 \<or> i = 2" by arith
    then show "\<not> op_done (ops_failed i)
      \<and> getVideosOperation backend_failed i (ops_failed i) = Inr (ops_failed (Suc i))"
      by (elim disjE) (simp_all add: ops_failed_def backend_failed_def pending_op_def)
  qed
  have f1: "op_done (ops_failed 3)"
    by (simp add: ops_failed_def failed_op_def)
  have e1: "op_error (ops_failed 3) = Some \<lparr>message = Some ''RESOURCE_EXHAUSTED''\<rparr>"
    by (simp add: ops_failed_def failed_op_def)
  note t1 = generateVideo_failure_kinds [OF key_k build_payload0 s1 p1 f1]
  have r1: "generateVideo env_k backend_failed ''a cat'' config0 =
     Some \<lparr>yielded = [], remote = GenerateVideos # replicate 3 GetVideosOperation,
           thrown = Some (Error (''Video generation failed: ''
             @ render (message \<lparr>message = Some ''RESOURCE_EXHAUSTED''\<rparr>)))\<rparr>"
    by (rule t1 [THEN conjunct1, THEN spec, THEN mp, OF e1])
  have s2: "generateVideos backend_forbidden (API_KEY env_k) payload0 = Inr (ops_slow 0)"
    by (simp add: backend_forbidden_def ops_slow_def)
  have p2: "\<forall>i<3. \<not> op_done (ops_slow i)
      \<and> getVideosOperation backend_forbidden i (ops_slow i) = Inr (ops_slow (Suc i))"
  proof (intro allI impI)
    fix i :: nat assume "i < 3"
    then have "i = 0 \<or> i = 1 \<or> i = 2" by arith
    then show "\<not> op_done (ops_slow i)
      \<and> getVideosOperation backend_forbidden i (ops_slow i) = Inr (ops_slow (Suc i))"
      by (elim disjE) (simp_all add: ops_slow_def backend_forbidden_def pending_op_def)
  qed
  have f2: "op_done (ops_slow 3)"
    by (simp add: ops_slow_def done_op_def)
  have e2: "op_error (ops_slow 3) = None
      \<and> downloadLink_of (ops_slow 3) = Some ''https://v/1?alt=media''
      \<and> ''https://v/1?alt=media'' \<noteq> []
      \<and> fetch backend_forbidden (''https://v/1?alt=media'' @ ''&key='' @ render (API_KEY env_k))
          = Inr forbidden_response
      \<and> \<not> ok forbidden_response"
    by (simp add: ops_slow_def downloadLink_done_op backend_forbidden_def forbidden_response_def)
       (simp add: done_op_def)
  note t2 = generateVideo_failure_kinds [OF key_k build_payload0 s2 p2 f2]
  have r2: "generateVideo env_k backend_forbidden ''a cat'' config0 =
     Some \<lparr>yielded = [Fetching],
           remote = GenerateVideos # replicate 3 GetVideosOperation
                      @ [Fetch (''https://v/1?alt=media'' @ ''&key='' @ render (API_KEY env_k))],
           thrown = Some (Error (''Failed to fetch video: '' @ statusText forbidden_response))\<rparr>"
    by (rule t2 [THEN conjunct2, THEN conjunct1, THEN spec, THEN spec, THEN mp, OF e2])
  have k: "render (API_KEY env_k) = ''k''"
    by (simp add: env_k_def render_def)
  show ?thesis
    using r1 r2 unfolding k
    by (simp add: render_def forbidden_response_def numeral_3_eq_3)
qed

section \<open>Image generation: one image requested, the empty answer\<close>

lemma generateImage_requests_one:
  "truthy (API_KEY e) \<Longrightarrow>
     snd (generateImage e gi subject ar) = [image_request_of subject ar]
     \<and> numberOfImages (image_request_of subject ar) = 1"
  by (simp add: generateImage_def Let_def image_request_of_def split: sum.splits)

lemma generateImage_data_uri:
  assumes "truthy (API_KEY e)" "gi (API_KEY e) (image_request_of subject ar) = Inr response"
    "generatedImages response = Some (g # gs)" "gen_image g = Some i" "imageBytes i = Some bytes"
  shows "fst (generateImage e gi subject ar) = Inr (''data:image/jpeg;base64,'' @ bytes)"
  using assms
  by (simp add: generateImage_def Let_def first_image_bytes_def at_index_def render_def)

lemma generateImage_empty_answer:
  assumes "truthy (API_KEY e)" "gi (API_KEY e) (image_request_of subject ar) = Inr response"
    "generatedImages response = Some []"
  shows "fst (generateImage e gi subject ar) = Inl (TypeError ''image'')"
  using assms
  by (simp add: generateImage_def Let_def first_image_bytes_def at_index_def)

text \<open>
  Claim C7, at the input where the code departs from it. The provider answers the one
  request with an empty list of images: \<open>generateImage\<close> does not raise an error of its
  own; reading \<^verbatim>\<open>.image\<close> of the missing first element raises the runtime's
  \<^verbatim>\<open>TypeError\<close>.
\<close>

theorem generateImage_zero_images_TypeError:
  "generateImage env_k empty_images ''a cat'' AR_1_1
     = (Inl (TypeError ''image''), [image_request_of ''a cat'' AR_1_1])"
  by (simp add: generateImage_def empty_images_def first_image_bytes_def at_index_def
      key_k Let_def)

section \<open>Live transcription: the message handler and the session handle\<close>

text \<open>
  Claim C2. A message carrying only a fragment \<open>t\<close> invokes \<open>onTranscriptionUpdate t false\<close>
  once and makes \<open>t\<close> the buffer. A message carrying only the turn-complete marker, with
  a non-empty buffer \<open>t\<close>, invokes \<open>onTranscriptionUpdate t true\<close> once and empties the
  buffer; with an empty buffer it invokes nothing. So the two messages in a row give the
  interim and then the final callback. A message with no server content, or with neither
  field, changes nothing and invokes nothing.
\<close>

theorem onmessage_interim_then_final:
  "onmessage cur \<lparr>serverContent = Some \<lparr>inputTranscription = Some \<lparr>tr_text = t\<rparr>,
                                        turnComplete = False\<rparr>\<rparr>
     = (t, [OnTranscriptionUpdate t False])
   \<and> (t \<noteq> [] \<longrightarrow>
        onmessage t \<lparr>serverContent = Some \<lparr>inputTranscription = None, turnComplete = True\<rparr>\<rparr>
          = ([], [OnTranscriptionUpdate t True]))
   \<and> onmessage [] \<lparr>serverContent = Some \<lparr>inputTranscription = None, turnComplete = True\<rparr>\<rparr>
       = ([], [])
   \<and> (t \<noteq> [] \<longrightarrow>
        onmessages cur
          [\<lparr>serverContent = Some \<lparr>inputTranscription = Some \<lparr>tr_text = t\<rparr>,
                                  turnComplete = False\<rparr>\<rparr>,
           \<lparr>serverContent = Some \<lparr>inputTranscription = None, turnComplete = True\<rparr>\<rparr>]
          = ([], [OnTranscriptionUpdate t False, OnTranscriptionUpdate t True]))
   \<and> onmessage cur \<lparr>serverContent = None\<rparr> = (cur, [])
   \<and> onmessage cur \<lparr>serverContent = Some \<lparr>inputTranscription = None, turnComplete = False\<rparr>\<rparr>
       = (cur, [])"
  by (simp add: onmessage_def)

theorem onmessage_interim_then_final_witness:
  "onmessage [] (frag ''hello wor'') = (''hello wor'', [OnTranscriptionUpdate ''hello wor'' False])
   \<and> onmessage ''hello wor'' turn_end = ([], [OnTranscriptionUpdate ''hello wor'' True])
   \<and> onmessages [] [frag ''hello wor'', turn_end]
       = ([], [OnTranscriptionUpdate ''hello wor'' False, OnTranscriptionUpdate ''hello wor'' True])
   \<and> onmessage [] turn_end = ([], [])"
  using onmessage_interim_then_final [of "[]" "''hello wor''"]
  by (simp add: frag_def turn_end_def)


























section \<open>The credential guard\<close>

text \<open>
  Claim C8, as the code has it. With the credential absent (\<^verbatim>\<open>undefined\<close> or empty):
  \<open>analyzeMedia\<close>, \<open>generateImage\<close> and \<open>generateVideo\<close> throw
  \<^verbatim>\<open>Error("API_KEY environment variable not set")\<close> and issue no remote request;
  \<open>startTranscriptionSession\<close> with the handle unset hands that error to \<^verbatim>\<open>onError\<close>,
  opens no connection and leaves the handle unset; with no session cached,
  \<open>getChatInstance\<close> throws it and \<open>sendMessageToAI\<close> fails with no remote request, the
  error it throws being the fixed communication failure; \<open>generateAudio\<close>, which has no
  check of its own, fails with no remote request and with the error of the SDK's client
  constructor when that constructor rejects the key it is handed, as the browser client
  does with a missing key.
\<close>

theorem missing_credential_guards:
  assumes "\<not> truthy (API_KEY e)"
  shows "analyzeMedia e gc question media
           = (Inl (Error ''API_KEY environment variable not set''), [])
       \<and> generateImage e gi subject ar
           = (Inl (Error ''API_KEY environment variable not set''), [])
       \<and> generateVideo e b prompt config
           = Some \<lparr>yielded = [], remote = [],
                   thrown = Some (Error ''API_KEY environment variable not set'')\<rparr>
       \<and> (liveSessionPromise st = None \<longrightarrow>
            startTranscriptionSession e st
              = st\<lparr>invoked := invoked st
                     @ [OnError (Error ''API_KEY environment variable not set'')]\<rparr>)
       \<and> (chats cst P = None \<longrightarrow>
            getChatInstance e cst P = Inl (Error ''API_KEY environment variable not set'')
            \<and> sendMessageToAI e send cst msg P
                = (Inl (Error ''Failed to communicate with the Mani Ai service.''),
                   on_send_error (Error ''API_KEY environment variable not set'') P cst, []))
       \<and> (\<forall>err. new_client sdk (API_KEY e) = Some err \<longrightarrow>
            generateAudio e sdk speech voiceName = (Inl err, []))"
  using assms
  by (simp add: analyzeMedia_def generateImage_def generateVideo_def
      startTranscriptionSession_def getChatInstance_def sendMessageToAI_def comm_failure_def
      generateAudio_def)

theorem missing_credential_guards_witness:
  "analyzeMedia env_none analysis_ok ''what is this?'' image_file
           = (Inl (Error ''API_KEY environment variable not set''), [])
   \<and> generateImage env_none empty_images ''a cat'' AR_1_1
           = (Inl (Error ''API_KEY environment variable not set''), [])
   \<and> generateVideo env_none backend_slow ''a cat'' config0
           = Some \<lparr>yielded = [], remote = [],
                   thrown = Some (Error ''API_KEY environment variable not set'')\<rparr>
   \<and> startTranscriptionSession env_none init_live_state
           = init_live_state\<lparr>invoked := [OnError (Error ''API_KEY environment variable not set'')]\<rparr>
   \<and> getChatInstance env_none init_chat_state standard
           = Inl (Error ''API_KEY environment variable not set'')
   \<and> generateAudio env_none browser_sdk ''hello'' ''Human''
           = (Inl (Foreign ''An API Key must be set when running in a browser''), [])"
proof -
  note t = missing_credential_guards
    [OF no_key, where gc = analysis_ok and question = "''what is this?''" and media = image_file
       and gi = empty_images and subject = "''a cat''" and ar = AR_1_1
       and b = backend_slow and prompt = "''a cat''" and config = config0
       and st = init_live_state and cst = init_chat_state and P = standard
       and send = ok_send and msg = "''hi''"
       and sdk = browser_sdk and speech = "''hello''" and voiceName = "''Human''"]
  have h0: "liveSessionPromise init_live_state = None"
    by (simp add: init_live_state_def)
  have c0: "chats init_chat_state standard = None"
    by (simp add: init_chat_state_def)
  have k0: "new_client browser_sdk (API_KEY env_none)
      = Some (Foreign ''An API Key must be set when running in a browser'')"
    by (simp add: browser_sdk_def env_none_def)
  have a: "analyzeMedia env_none analysis_ok ''what is this?'' image_file
           = (Inl (Error ''API_KEY environment variable not set''), [])"
    by (rule t [THEN conjunct1])
  have b: "generateImage env_none empty_images ''a cat'' AR_1_1
           = (Inl (Error ''API_KEY environment variable not set''), [])"
    by (rule t [THEN conjunct2, THEN conjunct1])
  have c: "generateVideo env_none backend_slow ''a cat'' config0
           = Some \<lparr>yielded = [], remote = [],
                   thrown = Some (Error ''API_KEY environment variable not set'')\<rparr>"
    by (rule t [THEN conjunct2, THEN conjunct2, THEN conjunct1])
  have d: "startTranscriptionSession env_none init_live_state
           = init_live_state\<lparr>invoked := invoked init_live_state
                @ [OnError (Error ''API_KEY environment variable not set'')]\<rparr>"
    by (rule t [THEN conjunct2, THEN conjunct2, THEN conjunct2, THEN conjunct1, THEN mp, OF h0])
  have f: "getChatInstance env_none init_chat_state standard
           = Inl (Error ''API_KEY environment variable not set'')"
    by (rule t [THEN conjunct2, THEN conjunct2, THEN conjunct2, THEN conjunct2, THEN conjunct1,
                THEN mp, OF c0, THEN conjunct1])
  have g: "generateAudio env_none browser_sdk ''hello'' ''Human''
           = (Inl (Foreign ''An API Key must be set when running in a browser''), [])"
    by (rule t [THEN conjunct2, THEN conjunct2, THEN conjunct2, THEN conjunct2, THEN conjunct2,
                THEN spec, THEN mp, OF k0])
  have d': "startTranscriptionSession env_none init_live_state
           = init_live_state\<lparr>invoked := [OnError (Error ''API_KEY environment variable not set'')]\<rparr>"
    using d by (simp add: init_live_state_def)
  show ?thesis using a b c d' f g by (intro conjI)
qed

text \<open>
  Claim C8 as stated fails for the chat turn: with no credential and an empty cache the
  call fails before any remote request, but with the communication failure and not with
  the configuration error.
\<close>

theorem chat_turn_hides_missing_credential:
  "fst (sendMessageToAI env_none ok_send init_chat_state ''hi'' standard)
     = Inl (Error ''Failed to communicate with the Mani Ai service.'')
   \<and> fst (sendMessageToAI env_none ok_send init_chat_state ''hi'' standard)
     \<noteq> Inl (Error ''API_KEY environment variable not set'')
   \<and> snd (snd (sendMessageToAI env_none ok_send init_chat_state ''hi'' standard)) = []"
proof (intro conjI)
  show turn: "fst (sendMessageToAI env_none ok_send init_chat_state ''hi'' standard)
     = Inl (Error ''Failed to communicate with the Mani Ai service.'')"
    by (simp add: sendMessageToAI_def getChatInstance_def init_chat_state_def no_key
        comm_failure_def)
  show "fst (sendMessageToAI env_none ok_send init_chat_state ''hi'' standard)
     \<noteq> Inl (Error ''API_KEY environment variable not set'')"
    unfolding turn by simp
  show "snd (snd (sendMessageToAI env_none ok_send init_chat_state ''hi'' standard)) = []"
    by (simp add: sendMessageToAI_def getChatInstance_def init_chat_state_def no_key)
qed

text \<open>
  \<open>generateAudio\<close> never raises the configuration error itself: it throws it only if the
  SDK did.
\<close>

lemma generateAudio_no_guard:
  assumes "fst (generateAudio e sdk speech voiceName)
             = Inl (Error ''API_KEY environment variable not set'')"
  shows "new_client sdk (API_KEY e) = Some (Error ''API_KEY environment variable not set'')
       \<or> tts_generateContent sdk (API_KEY e) (apiVoiceName_of voiceName) speech
           = Inl (Error ''API_KEY environment variable not set'')"
  using assms
  by (auto simp: generateAudio_def split: option.splits sum.splits if_splits)

end
